theory Spec2Isabelle
  imports Complex_Main
begin

section \<open>Python values the monitor works with\<close>

text \<open>
  The monitor is a Python program. Its \<open>float\<close> quantities are modelled as real numbers
  (no rounding, no infinities, no NaN); its strings are lists of characters read as the code
  points U+0000 to U+00FF. Exceptions are values: a function that can raise returns
  \<open>exn + 'a\<close>, with \<open>Inl\<close> for the exception.
\<close>

datatype exn =
    ValueError | IndexError | TypeError | KeyError | AttributeError
  | UnicodeDecodeError | StatisticsError | RuntimeError

text \<open>\<open>str.isspace\<close>, which \<open>str.strip\<close> and the pattern \<open>\s\<close> use.\<close>

definition is_space :: "char \<Rightarrow> bool" where
  "is_space c =
     (let n = (of_char c :: nat)
      in (9 \<le> n \<and> n \<le> 13) \<or> (28 \<le> n \<and> n \<le> 32) \<or> n = 133 \<or> n = 160)"

text \<open>The pattern \<open>\d\<close>: below U+0100 the decimal digits are \<open>0\<close> to \<open>9\<close> only.\<close>

definition is_digit :: "char \<Rightarrow> bool" where
  "is_digit c = (let n = (of_char c :: nat) in 48 \<le> n \<and> n \<le> 57)"

text \<open>
  \<open>str.lower\<close> on one character: \<open>A\<close> to \<open>Z\<close> and the Latin-1 capitals U+00C0 to
  U+00DE (without the multiplication sign U+00D7) move up by 32, which sets bit 5.
\<close>

definition lower_char :: "char \<Rightarrow> char" where
  "lower_char c =
     (let n = (of_char c :: nat)
      in if (65 \<le> n \<and> n \<le> 90) \<or> (192 \<le> n \<and> n \<le> 222 \<and> n \<noteq> 215)
         then (case c of Char b0 b1 b2 b3 b4 b5 b6 b7 \<Rightarrow> Char b0 b1 b2 b3 b4 True b6 b7)
         else c)"

definition lower :: "string \<Rightarrow> string" where
  "lower s = map lower_char s"

definition strip :: "string \<Rightarrow> string" where
  "strip s = rev (dropWhile is_space (rev (dropWhile is_space s)))"

text \<open>\<open>str.split(sep)\<close> for a separator of one character: never an empty list.\<close>

fun split_on :: "char \<Rightarrow> string \<Rightarrow> string list" where
  "split_on sep [] = [[]]"
| "split_on sep (c # cs) =
     (if c = sep then [] # split_on sep cs
      else (case split_on sep cs of
              [] \<Rightarrow> [[c]]
            | p # ps \<Rightarrow> (c # p) # ps))"

text \<open>
  \<open>float(s)\<close> on the strings the patterns' first group \<open>[\d.]+\<close> can hold, digits and
  dots: the decimal literal's value when there is at most one dot and at least one digit,
  \<open>ValueError\<close> otherwise.
\<close>

definition digits_val :: "string \<Rightarrow> nat" where
  "digits_val ds = foldl (\<lambda>a c. 10 * a + (of_char c - 48)) 0 ds"

definition py_float :: "string \<Rightarrow> exn + real" where
  "py_float s =
     (let ip = takeWhile is_digit s; r = dropWhile is_digit s
      in case r of
           [] \<Rightarrow> if ip = [] then Inl ValueError else Inr (real (digits_val ip))
         | c # fp \<Rightarrow>
             if c = CHR ''.'' \<and> list_all is_digit fp \<and> (ip \<noteq> [] \<or> fp \<noteq> [])
             then Inr (real (digits_val ip) + real (digits_val fp) / 10 ^ length fp)
             else Inl ValueError)"

section \<open>Unit converter\<close>

text \<open>The character class \<open>[\d.]\<close>.\<close>

definition is_num_char :: "char \<Rightarrow> bool" where
  "is_num_char c = (is_digit c \<or> c = CHR ''.'')"

text \<open>
  \<open>[kmgt]?i?b\<close> at the head of a string, giving the text it matches. Both options are
  greedy; giving one back never helps, since the character given back would have to match
  the next item, which it cannot.
\<close>

definition match_unit :: "string \<Rightarrow> string option" where
  "match_unit s =
     (let (p, s1) = (case s of
                       c # r \<Rightarrow> if c \<in> set ''kmgt'' then ([c], r) else ([], s)
                     | [] \<Rightarrow> ([], s));
          (i, s2) = (case s1 of
                       c # r \<Rightarrow> if c = CHR ''i'' then ([c], r) else ([], s1)
                     | [] \<Rightarrow> ([], s1))
      in case s2 of
           c # r \<Rightarrow> if c = CHR ''b'' then Some (p @ i @ ''b'') else None
         | [] \<Rightarrow> None)"

text \<open>
  \<open>re.match(r'([\d.]+)\s*([kmgt]?i?b)', s)\<close>: anchored at the start, not at the end;
  the result is the pair of groups. The two runs are maximal: a shorter run leaves a
  character of the run where the next item must match, and the classes are disjoint.
\<close>

definition match_bytes :: "string \<Rightarrow> (string \<times> string) option" where
  "match_bytes s =
     (let num = takeWhile is_num_char s;
          rest = dropWhile is_space (dropWhile is_num_char s)
      in if num = [] then None
         else (case match_unit rest of
                 None \<Rightarrow> None
               | Some u \<Rightarrow> Some (num, u)))"

definition bytes_multipliers :: "(string \<times> real) list" where
  "bytes_multipliers =
     [(''b'', 1), (''kib'', 1024), (''mib'', 1024 ^ 2), (''gib'', 1024 ^ 3), (''tib'', 1024 ^ 4)]"

text \<open>\<open>d.get(k, 1)\<close> on a dictionary written as a list of bindings.\<close>

definition get_or_1 :: "(string \<times> real) list \<Rightarrow> string \<Rightarrow> real" where
  "get_or_1 d k = (case map_of d k of Some m \<Rightarrow> m | None \<Rightarrow> 1)"

definition convert_to_bytes :: "string \<Rightarrow> exn + real" where
  "convert_to_bytes value_str =
     (let s = lower (strip value_str)
      in case match_bytes s of
           None \<Rightarrow> Inr 0
         | Some (num, u) \<Rightarrow>
             (case py_float num of
                Inl e \<Rightarrow> Inl e
              | Inr v \<Rightarrow> Inr (v * get_or_1 bytes_multipliers u)))"

text \<open>\<open>'bit/s' in rate_str\<close>.\<close>

fun contains :: "string \<Rightarrow> string \<Rightarrow> bool" where
  "contains sub [] = (sub = [])"
| "contains sub (c # cs) = (take (length sub) (c # cs) = sub \<or> contains sub cs)"

text \<open>
  \<open>re.match(r'([\d.]+)\s*(k|m|g|t)?\s*bit/s', s)\<close>; the second group is \<open>None\<close> when
  the prefix is not there, and the code reads it as the empty string then.
\<close>

definition match_rate :: "string \<Rightarrow> (string \<times> string) option" where
  "match_rate s =
     (let num = takeWhile is_num_char s;
          r1 = dropWhile is_space (dropWhile is_num_char s);
          (u, r2) = (case r1 of
                       c # r \<Rightarrow> if c \<in> set ''kmgt'' then ([c], r) else ([], r1)
                     | [] \<Rightarrow> ([], r1));
          r3 = dropWhile is_space r2
      in if num \<noteq> [] \<and> take 5 r3 = ''bit/s'' then Some (num, u) else None)"

definition rate_multipliers :: "(string \<times> real) list" where
  "rate_multipliers =
     [('''', 1), (''k'', 1000), (''m'', 1000 ^ 2), (''g'', 1000 ^ 3), (''t'', 1000 ^ 4)]"

definition convert_rate_to_bps :: "string \<Rightarrow> exn + real" where
  "convert_rate_to_bps rate_str =
     (let s = lower (strip rate_str)
      in if contains ''bit/s'' s
         then (case match_rate s of
                 None \<Rightarrow> Inr 0
               | Some (num, u) \<Rightarrow>
                   (case py_float num of
                      Inl e \<Rightarrow> Inl e
                    | Inr v \<Rightarrow> Inr (v * get_or_1 rate_multipliers u)))
         else Inr 0)"

section \<open>Measurements, history records and the history file\<close>

definition SPIKE_THRESHOLD :: real where
  "SPIKE_THRESHOLD = 2"

definition MAX_HISTORY :: nat where
  "MAX_HISTORY = 20"

record traffic_data =
  timestamp :: string
  time :: string
  rx_bytes :: real
  tx_bytes :: real
  total_bytes :: real
  avg_rate_bps :: real

text \<open>
  What \<open>json.load\<close> returns. An object is its list of bindings, one per key, in the
  order of insertion.
\<close>

datatype json =
    JNull
  | JBool bool
  | JNum real
  | JStr string
  | JArr "json list"
  | JObj "(string \<times> json) list"

text \<open>
  The history file as \<open>load_history\<close> can find it: not there; there, but \<open>open\<close> or
  \<open>read\<close> raises \<open>IOError\<close>; bytes that are not text in the file's encoding
  (\<open>UnicodeDecodeError\<close>); text that is not JSON (\<open>JSONDecodeError\<close>); or JSON text,
  given by the value it decodes to.
\<close>

datatype history_file = Missing | Unreadable | Undecodable | Malformed | Decoded json

text \<open>\<open>len(x)\<close>.\<close>

fun py_len :: "json \<Rightarrow> exn + nat" where
  "py_len (JArr xs) = Inr (length xs)"
| "py_len (JObj kvs) = Inr (length kvs)"
| "py_len (JStr s) = Inr (length s)"
| "py_len _ = Inl TypeError"

text \<open>
  The handler catches \<open>JSONDecodeError\<close> and \<open>IOError\<close>. The message logged on success
  is an f-string that takes \<open>len(history)\<close>, inside the \<open>try\<close>.
\<close>

fun load_history :: "history_file \<Rightarrow> exn + json" where
  "load_history Missing = Inr (JArr [])"
| "load_history Unreadable = Inr (JArr [])"
| "load_history Malformed = Inr (JArr [])"
| "load_history Undecodable = Inl UnicodeDecodeError"
| "load_history (Decoded j) = (case py_len j of Inl e \<Rightarrow> Inl e | Inr n \<Rightarrow> Inr j)"

text \<open>\<open>xs[-n:]\<close> for \<open>n > 0\<close>: the last \<open>n\<close> elements, all of them when there are fewer.\<close>

definition last_n :: "nat \<Rightarrow> 'a list \<Rightarrow> 'a list" where
  "last_n n xs = drop (length xs - n) xs"

text \<open>
  Writing the file either succeeds, or raises \<open>IOError\<close> and leaves the file in some
  state (unchanged when \<open>open\<close> fails).
\<close>

datatype write_outcome = Written | WriteFails history_file

definition save_history :: "write_outcome \<Rightarrow> json list \<Rightarrow> history_file" where
  "save_history wr history =
     (let history = (if length history > MAX_HISTORY then last_n MAX_HISTORY history
                     else history)
      in case wr of
           Written \<Rightarrow> Decoded (JArr history)
         | WriteFails f \<Rightarrow> f)"

definition current_record :: "traffic_data \<Rightarrow> json" where
  "current_record current_data =
     JObj [(''timestamp'', JStr (timestamp current_data)),
           (''time'', JStr (time current_data)),
           (''rx_bytes'', JNum (rx_bytes current_data)),
           (''tx_bytes'', JNum (tx_bytes current_data)),
           (''total_bytes'', JNum (total_bytes current_data)),
           (''avg_rate_bps'', JNum (avg_rate_bps current_data))]"

text \<open>
  Returns the updated history and the file as the call leaves it. Only a list has
  \<open>append\<close>. When the call raises, nothing has been written.
\<close>

definition add_to_history ::
    "write_outcome \<Rightarrow> traffic_data \<Rightarrow> history_file \<Rightarrow> exn + (json list \<times> history_file)" where
  "add_to_history wr current_data hf =
     (case load_history hf of
        Inl e \<Rightarrow> Inl e
      | Inr (JArr xs) \<Rightarrow>
          (let history = xs @ [current_record current_data];
               history = (if length history > MAX_HISTORY then last_n MAX_HISTORY history
                          else history)
           in Inr (history, save_history wr history))
      | Inr _ \<Rightarrow> Inl AttributeError)"

section \<open>Baseline statistics\<close>

record baseline =
  mean :: real
  stdev :: real
  count :: nat

text \<open>\<open>not x\<close> is the negation of this.\<close>

fun truthy :: "json \<Rightarrow> bool" where
  "truthy JNull = False"
| "truthy (JBool b) = b"
| "truthy (JNum r) = (r \<noteq> 0)"
| "truthy (JStr s) = (s \<noteq> [])"
| "truthy (JArr xs) = (xs \<noteq> [])"
| "truthy (JObj kvs) = (kvs \<noteq> [])"

text \<open>\<open>for record in x\<close>: a list gives its elements, an object its keys, a string its characters.\<close>

fun py_iter :: "json \<Rightarrow> exn + json list" where
  "py_iter (JArr xs) = Inr xs"
| "py_iter (JObj kvs) = Inr (map (\<lambda>kv. JStr (fst kv)) kvs)"
| "py_iter (JStr s) = Inr (map (\<lambda>c. JStr [c]) s)"
| "py_iter _ = Inl TypeError"

text \<open>\<open>x[key]\<close> for a string key.\<close>

fun getitem :: "json \<Rightarrow> string \<Rightarrow> exn + json" where
  "getitem (JObj kvs) k = (case map_of kvs k of None \<Rightarrow> Inl KeyError | Some v \<Rightarrow> Inr v)"
| "getitem _ k = Inl TypeError"

text \<open>A value as a number of the \<open>statistics\<close> module: \<open>bool\<close> is a subclass of \<open>int\<close>.\<close>

fun number :: "json \<Rightarrow> exn + real" where
  "number (JNum r) = Inr r"
| "number (JBool b) = Inr (if b then 1 else 0)"
| "number _ = Inl TypeError"

text \<open>A list comprehension whose element expression can raise: the first exception wins.\<close>

fun map_exn :: "('a \<Rightarrow> exn + 'b) \<Rightarrow> 'a list \<Rightarrow> exn + 'b list" where
  "map_exn f [] = Inr []"
| "map_exn f (x # xs) =
     (case f x of
        Inl e \<Rightarrow> Inl e
      | Inr y \<Rightarrow> (case map_exn f xs of Inl e \<Rightarrow> Inl e | Inr ys \<Rightarrow> Inr (y # ys)))"

text \<open>
  \<open>statistics.mean\<close> and \<open>statistics.stdev\<close> of the standard library (CPython 3.11), on
  numbers: both work on exact fractions; \<open>stdev\<close> takes the sum of squared deviations as
  \<open>(n * sxx - sx * sx) / n\<close>, divides by \<open>n - 1\<close> and takes the root.
\<close>

definition statistics_mean :: "real list \<Rightarrow> exn + real" where
  "statistics_mean data =
     (if length data < 1 then Inl StatisticsError
      else Inr (sum_list data / real (length data)))"

definition statistics_stdev :: "real list \<Rightarrow> exn + real" where
  "statistics_stdev data =
     (let n = length data;
          sx = sum_list data;
          sxx = sum_list (map (\<lambda>x. x * x) data);
          ssd = (real n * sxx - sx * sx) / real n
      in if n < 2 then Inl StatisticsError
         else Inr (sqrt (ssd / real (n - 1))))"

text \<open>The result \<open>{}\<close> is \<open>None\<close>, the result \<open>{'total_traffic': {...}}\<close> is \<open>Some\<close>.\<close>

definition calculate_historical_stats :: "json \<Rightarrow> exn + baseline option" where
  "calculate_historical_stats history =
     (if \<not> truthy history then Inr None
      else case py_iter history of
             Inl e \<Rightarrow> Inl e
           | Inr records \<Rightarrow>
               (case map_exn (\<lambda>r. getitem r ''total_bytes'') records of
                  Inl e \<Rightarrow> Inl e
                | Inr vals \<Rightarrow>
                    (case map_exn number vals of
                       Inl e \<Rightarrow> Inl e
                     | Inr tbs \<Rightarrow>
                         (case statistics_mean tbs of
                            Inl e \<Rightarrow> Inl e
                          | Inr m \<Rightarrow>
                              (case (if length tbs > 1 then statistics_stdev tbs
                                     else Inr 0) of
                                 Inl e \<Rightarrow> Inl e
                               | Inr sd \<Rightarrow>
                                   Inr (Some \<lparr>mean = m, stdev = sd,
                                              count = length tbs\<rparr>))))))"

section \<open>Spike detector\<close>

definition detect_spike :: "traffic_data \<Rightarrow> baseline option \<Rightarrow> bool \<times> real" where
  "detect_spike current_data historical_stats =
     (case historical_stats of
        None \<Rightarrow> (False, 0)
      | Some st \<Rightarrow>
          if stdev st = 0 then (False, 0)
          else (let z_score = (total_bytes current_data - mean st) / stdev st;
                    threshold = mean st + SPIKE_THRESHOLD * stdev st
                in (total_bytes current_data > threshold, z_score)))"

section \<open>Notifier\<close>

record monitor =
  server_name :: string
  server_ip :: string
  interface :: string

text \<open>
  \<open>format_bytes\<close> and \<open>format_rate\<close> scale the number and choose the unit; the result is
  kept as the pair of both, the rendering of the number with two decimals is not modelled.
\<close>

fun format_loop :: "real \<Rightarrow> real \<Rightarrow> string list \<Rightarrow> string \<Rightarrow> real \<times> string" where
  "format_loop base v [] final = (v, final)"
| "format_loop base v (u # us) final =
     (if v < base then (v, u) else format_loop base (v / base) us final)"

definition format_bytes :: "real \<Rightarrow> real \<times> string" where
  "format_bytes bytes_value =
     format_loop 1024 bytes_value [''B'', ''KiB'', ''MiB'', ''GiB'', ''TiB''] ''PiB''"

definition format_rate :: "real \<Rightarrow> real \<times> string" where
  "format_rate rate_bps =
     format_loop 1000 rate_bps [''bit/s'', ''kbit/s'', ''Mbit/s'', ''Gbit/s''] ''Tbit/s''"

text \<open>
  \<open>round(x, 2)\<close>: the nearest multiple of one hundredth, a tie going to the even one.
\<close>

definition round_half_even :: "real \<Rightarrow> int" where
  "round_half_even x =
     (let f = \<lfloor>x\<rfloor>; d = x - of_int f
      in if d < 1 / 2 then f
         else if d > 1 / 2 then f + 1
         else if even f then f else f + 1)"

definition py_round2 :: "real \<Rightarrow> real" where
  "py_round2 x = of_int (round_half_even (x * 100)) / 100"

record current_traffic =
  ct_total_bytes :: real
  ct_rx_bytes :: real
  ct_tx_bytes :: real
  ct_avg_rate_bps :: real
  total_formatted :: "real \<times> string"
  rx_formatted :: "real \<times> string"
  tx_formatted :: "real \<times> string"
  rate_formatted :: "real \<times> string"

record historical_stats =
  hs_mean :: real
  hs_stdev :: real
  hs_count :: nat
  mean_formatted :: "real \<times> string"
  stdev_formatted :: "real \<times> string"

record health_check =
  hc_timestamp :: string
  hc_server_name :: string
  hc_server_ip :: string
  hc_interface :: string
  status :: string
  service :: string
  error_message :: "exn option"

record spike_alert =
  sa_timestamp :: string
  sa_server_name :: string
  sa_server_ip :: string
  sa_interface :: string
  spike_time :: string
  sa_current_traffic :: current_traffic
  z_score :: real
  threshold :: real
  sa_historical_stats :: historical_stats

datatype payload = HealthCheck health_check | SpikeAlert spike_alert

text \<open>
  The world one run acts on: the history file and the requests posted so far, in order.
  Whether a request is delivered is the environment's choice; a request that is posted is
  recorded whether it is delivered or not. The environment of a run is what the counter
  command does, the reading of the clock (one for the whole run), the delivery of each
  request and the outcome of the one write of the history file.
\<close>

record world =
  hfile :: history_file
  posted :: "payload list"

datatype vnstat_result = CommandFailed | CommandNotFound | Stdout string

record env =
  vnstat :: vnstat_result
  now :: string
  delivered :: "payload \<Rightarrow> bool"
  write_result :: write_outcome

definition send_to_apps_script :: "env \<Rightarrow> payload \<Rightarrow> world \<Rightarrow> bool \<times> world" where
  "send_to_apps_script ev data w = (delivered ev data, w\<lparr>posted := posted w @ [data]\<rparr>)"

definition health_data :: "monitor \<Rightarrow> traffic_data \<Rightarrow> payload" where
  "health_data m current_data =
     HealthCheck \<lparr>hc_timestamp = timestamp current_data,
                  hc_server_name = server_name m,
                  hc_server_ip = server_ip m,
                  hc_interface = interface m,
                  status = ''healthy'',
                  service = ''traffic_monitor'',
                  error_message = None\<rparr>"

definition send_health_check :: "monitor \<Rightarrow> env \<Rightarrow> traffic_data \<Rightarrow> world \<Rightarrow> world" where
  "send_health_check m ev current_data w =
     snd (send_to_apps_script ev (health_data m current_data) w)"

definition alert_data :: "monitor \<Rightarrow> traffic_data \<Rightarrow> real \<Rightarrow> baseline \<Rightarrow> payload" where
  "alert_data m current_data z st =
     SpikeAlert \<lparr>sa_timestamp = timestamp current_data,
                 sa_server_name = server_name m,
                 sa_server_ip = server_ip m,
                 sa_interface = interface m,
                 spike_time = time current_data,
                 sa_current_traffic =
                   \<lparr>ct_total_bytes = total_bytes current_data,
                    ct_rx_bytes = rx_bytes current_data,
                    ct_tx_bytes = tx_bytes current_data,
                    ct_avg_rate_bps = avg_rate_bps current_data,
                    total_formatted = format_bytes (total_bytes current_data),
                    rx_formatted = format_bytes (rx_bytes current_data),
                    tx_formatted = format_bytes (tx_bytes current_data),
                    rate_formatted = format_rate (avg_rate_bps current_data)\<rparr>,
                 z_score = py_round2 z,
                 threshold = SPIKE_THRESHOLD,
                 sa_historical_stats =
                   \<lparr>hs_mean = mean st,
                    hs_stdev = stdev st,
                    hs_count = count st,
                    mean_formatted = format_bytes (mean st),
                    stdev_formatted = format_bytes (stdev st)\<rparr>\<rparr>"

text \<open>\<open>historical_stats['total_traffic']\<close> raises \<open>KeyError\<close> on the empty dictionary.\<close>

definition send_spike_alert ::
    "monitor \<Rightarrow> env \<Rightarrow> traffic_data \<Rightarrow> real \<Rightarrow> baseline option \<Rightarrow> world \<Rightarrow> exn + world" where
  "send_spike_alert m ev current_data z hst w =
     (case hst of
        None \<Rightarrow> Inl KeyError
      | Some st \<Rightarrow> Inr (snd (send_to_apps_script ev (alert_data m current_data z st) w)))"

section \<open>Sample parser\<close>

definition run_vnstat :: "env \<Rightarrow> exn + string" where
  "run_vnstat ev =
     (case vnstat ev of
        CommandFailed \<Rightarrow> Inl RuntimeError
      | CommandNotFound \<Rightarrow> Inl RuntimeError
      | Stdout out \<Rightarrow> Inr out)"

text \<open>\<open>\d{2}:\d{2}\<close> at the head of a string.\<close>

fun time_label_at :: "string \<Rightarrow> bool" where
  "time_label_at (a # b # c # d # e # _) =
     (is_digit a \<and> is_digit b \<and> c = CHR '':'' \<and> is_digit d \<and> is_digit e)"
| "time_label_at _ = False"

text \<open>
  \<open>re.search(r'\d{2}:\d{2}', s)\<close>: the leftmost match, given as the rest of the string
  from where it starts; the label is its first five characters.
\<close>

fun search_time :: "string \<Rightarrow> string option" where
  "search_time [] = None"
| "search_time (c # cs) = (if time_label_at (c # cs) then Some (c # cs) else search_time cs)"

text \<open>
  \<open>\s+(.+)\<close> at the head of a string, with the whitespace run at most \<open>k\<close> long: the
  run is tried from the longest down, and the group is every character up to the next
  newline, at least one.
\<close>

fun spaces_then_rest :: "nat \<Rightarrow> string \<Rightarrow> string option" where
  "spaces_then_rest 0 r = None"
| "spaces_then_rest (Suc k) r =
     (case takeWhile (\<lambda>c. c \<noteq> CHR 0x0A) (drop (Suc k) r) of
        [] \<Rightarrow> spaces_then_rest k r
      | g # gs \<Rightarrow> Some (g # gs))"

text \<open>\<open>re.search(r'\d{2}:\d{2}\s+(.+)', s)\<close>, giving the group.\<close>

fun search_rx :: "string \<Rightarrow> string option" where
  "search_rx [] = None"
| "search_rx (c # cs) =
     (if time_label_at (c # cs)
      then (case spaces_then_rest (length (takeWhile is_space (drop 5 (c # cs))))
                   (drop 5 (c # cs)) of
              Some g \<Rightarrow> Some g
            | None \<Rightarrow> search_rx cs)
      else search_rx cs)"

text \<open>
  The four conversions of one line and the measurement they make, in the order of the
  code; the first exception wins.
\<close>

definition conversions ::
    "string \<Rightarrow> string \<Rightarrow> string \<Rightarrow> string \<Rightarrow> string \<Rightarrow> string \<Rightarrow> exn + traffic_data" where
  "conversions tstamp tm rx_str tx_str total_str rate_str =
     (case convert_to_bytes rx_str of
        Inl e \<Rightarrow> Inl e
      | Inr rx \<Rightarrow>
     (case convert_to_bytes tx_str of
        Inl e \<Rightarrow> Inl e
      | Inr tx \<Rightarrow>
     (case convert_to_bytes total_str of
        Inl e \<Rightarrow> Inl e
      | Inr tot \<Rightarrow>
     (case convert_rate_to_bps rate_str of
        Inl e \<Rightarrow> Inl e
      | Inr rate \<Rightarrow>
          Inr \<lparr>timestamp = tstamp, time = tm, rx_bytes = rx, tx_bytes = tx,
               total_bytes = tot, avg_rate_bps = rate\<rparr>))))"

text \<open>
  The text of the received quantity: what follows the time label and whitespace in the
  first field, or \<open>"0 B"\<close> when nothing does.
\<close>

definition rx_text :: "string \<Rightarrow> string" where
  "rx_text time_rx_part =
     (case search_rx time_rx_part of
        Some g \<Rightarrow> strip g
      | None \<Rightarrow> ''0 B'')"

text \<open>
  The body of the loop for one line: \<open>Inr None\<close> when the line is passed over,
  \<open>Inr (Some d)\<close> when it becomes the latest measurement, \<open>Inl e\<close> when an exception
  leaves the loop. The inner handler catches \<open>ValueError\<close> and \<open>IndexError\<close>.
\<close>

definition parse_line :: "string \<Rightarrow> string \<Rightarrow> exn + traffic_data option" where
  "parse_line tstamp line =
     (if search_time line = None then Inr None
      else
        (let parts = map strip (split_on (CHR ''|'') line)
         in if length parts \<ge> 4
            then
              (let time_rx_part = strip (parts ! 0)
               in case search_time time_rx_part of
                    None \<Rightarrow> Inr None
                  | Some m \<Rightarrow>
                      (let rx_str = rx_text time_rx_part
                       in case conversions tstamp (take 5 m) rx_str (strip (parts ! 1))
                                 (strip (parts ! 2)) (strip (parts ! 3)) of
                            Inr d \<Rightarrow> Inr (Some d)
                          | Inl e \<Rightarrow>
                              if e = ValueError \<or> e = IndexError then Inr None
                              else Inl e))
            else Inr None))"

text \<open>The loop over the lines: the latest measurement so far is replaced, never dropped.\<close>

fun scan_lines :: "string \<Rightarrow> traffic_data option \<Rightarrow> string list \<Rightarrow> exn + traffic_data option" where
  "scan_lines tstamp latest_data [] = Inr latest_data"
| "scan_lines tstamp latest_data (line # lines) =
     (case parse_line tstamp line of
        Inl e \<Rightarrow> Inl e
      | Inr None \<Rightarrow> scan_lines tstamp latest_data lines
      | Inr (Some d) \<Rightarrow> scan_lines tstamp (Some d) lines)"

text \<open>The parser proper: the body of \<open>get_current_traffic_data\<close> after the command has run.\<close>

definition parse_output :: "string \<Rightarrow> string \<Rightarrow> exn + traffic_data option" where
  "parse_output tstamp output = scan_lines tstamp None (split_on (CHR 0x0A) (strip output))"

text \<open>The outer handler turns every exception into \<open>None\<close>.\<close>

definition get_current_traffic_data :: "env \<Rightarrow> traffic_data option" where
  "get_current_traffic_data ev =
     (case run_vnstat ev of
        Inl e \<Rightarrow> None
      | Inr output \<Rightarrow>
          (case parse_output (now ev) output of
             Inl e \<Rightarrow> None
           | Inr latest_data \<Rightarrow> latest_data))"

section \<open>Run controller\<close>

definition error_data :: "monitor \<Rightarrow> env \<Rightarrow> exn \<Rightarrow> payload" where
  "error_data m ev e =
     HealthCheck \<lparr>hc_timestamp = now ev,
                  hc_server_name = server_name m,
                  hc_server_ip = server_ip m,
                  hc_interface = interface m,
                  status = ''error'',
                  service = ''traffic_monitor'',
                  error_message = Some e\<rparr>"

text \<open>
  The steps of \<open>run_check\<close> after the measurement is there, up to the first exception;
  the world is returned as that point leaves it.
\<close>

definition check_steps :: "monitor \<Rightarrow> env \<Rightarrow> traffic_data \<Rightarrow> world \<Rightarrow> (exn + unit) \<times> world" where
  "check_steps m ev current_data w =
     (case load_history (hfile w) of
        Inl e \<Rightarrow> (Inl e, w)
      | Inr history \<Rightarrow>
     (case calculate_historical_stats history of
        Inl e \<Rightarrow> (Inl e, w)
      | Inr hst \<Rightarrow>
     (case detect_spike current_data hst of
        (is_spike, z) \<Rightarrow>
     (case (if is_spike then send_spike_alert m ev current_data z hst w else Inr w) of
        Inl e \<Rightarrow> (Inl e, w)
      | Inr w1 \<Rightarrow>
     (let w2 = send_health_check m ev current_data w1
      in case add_to_history (write_result ev) current_data (hfile w2) of
           Inl e \<Rightarrow> (Inl e, w2)
         | Inr (history, f) \<Rightarrow> (Inr (), w2\<lparr>hfile := f\<rparr>))))))"

definition run_check :: "monitor \<Rightarrow> env \<Rightarrow> world \<Rightarrow> bool \<times> world" where
  "run_check m ev w =
     (case get_current_traffic_data ev of
        None \<Rightarrow> (False, w)
      | Some current_data \<Rightarrow>
          (case check_steps m ev current_data w of
             (Inr u, w') \<Rightarrow> (True, w')
           | (Inl e, w') \<Rightarrow> (False, snd (send_to_apps_script ev (error_data m ev e) w'))))"

section \<open>Notions the properties are stated with\<close>

text \<open>
  A sequence of calls of \<open>add_to_history\<close>, each with the measurement to add and the
  outcome of its write; the state is the history the latest call returned and the file.
  The sequence stops at the first call that raises.
\<close>

fun append_all ::
    "json list \<times> history_file \<Rightarrow> (write_outcome \<times> traffic_data) list
       \<Rightarrow> exn + (json list \<times> history_file)" where
  "append_all st [] = Inr st"
| "append_all st ((wr, d) # ops) =
     (case add_to_history wr d (snd st) of
        Inl e \<Rightarrow> Inl e
      | Inr st' \<Rightarrow> append_all st' ops)"

text \<open>The texts \<open>[kmgt]?i?b\<close> matches.\<close>

definition unit_texts :: "string list" where
  "unit_texts =
     [''b'', ''ib'', ''kb'', ''kib'', ''mb'', ''mib'', ''gb'', ''gib'', ''tb'', ''tib'']"

text \<open>A run of digits and dots that is a decimal literal: one dot at most, one digit at least.\<close>

definition decimal_literal :: "string \<Rightarrow> bool" where
  "decimal_literal num = (count_list num (CHR ''.'') \<le> 1 \<and> list_ex is_digit num)"

text \<open>
  What the pattern \<open>([\d.]+)\s*([kmgt]?i?b)\<close> asks of a text, read as a description: the
  text starts with the run \<open>num\<close> of digits and dots, then whitespace if any, then the
  unit text \<open>u\<close>; anything may follow.
\<close>

definition bytes_pattern :: "string \<Rightarrow> string \<Rightarrow> string \<Rightarrow> bool" where
  "bytes_pattern t num u =
     (\<exists>ws rest. t = num @ ws @ u @ rest \<and> num \<noteq> [] \<and> list_all is_num_char num
                \<and> list_all is_space ws \<and> u \<in> set unit_texts)"

text \<open>The measurement a line gives, if it gives one.\<close>

definition measurement_of :: "string \<Rightarrow> string \<Rightarrow> traffic_data option" where
  "measurement_of tstamp line = (case parse_line tstamp line of Inr r \<Rightarrow> r | Inl e \<Rightarrow> None)"

section \<open>The history stays bounded and evicts the oldest records\<close>

lemma last_n_length: "length (last_n n xs) = min n (length xs)"
  by (simp add: last_n_def)

lemma last_n_append_split: "\<exists>evicted. xs = evicted @ last_n n xs"
  unfolding last_n_def by (metis append_take_drop_id)

lemma last_n_last_n_append: "last_n n (last_n n xs @ ys) = last_n n (xs @ ys)"
proof (cases "length xs \<le> n")
  case True
  then show ?thesis by (simp add: last_n_def)
next
  case False
  then have "length xs + length ys - n = (length xs - n) + length ys" by simp
  with False show ?thesis by (simp add: last_n_def min_def add.commute)
qed

lemma last_n_idem: "last_n n (last_n n xs) = last_n n xs"
  using last_n_last_n_append[of n xs "[]"] by simp

lemma last_n_short: "length xs \<le> n \<Longrightarrow> last_n n xs = xs"
  by (simp add: last_n_def)

lemma trim_eq: "(if length h > MAX_HISTORY then last_n MAX_HISTORY h else h) = last_n MAX_HISTORY h"
  by (simp add: last_n_def)

lemma add_to_history_list:
  "load_history f = Inr (JArr xs) \<Longrightarrow>
   add_to_history wr d f =
     Inr (last_n MAX_HISTORY (xs @ [current_record d]),
          (case wr of Written \<Rightarrow> Decoded (JArr (last_n MAX_HISTORY (xs @ [current_record d])))
                    | WriteFails g \<Rightarrow> g))"
  by (simp add: add_to_history_def save_history_def Let_def trim_eq last_n_idem
           split: write_outcome.splits)

lemma add_to_history_bound:
  "add_to_history wr d f = Inr (h, f') \<Longrightarrow> length h \<le> MAX_HISTORY"
  by (auto simp: add_to_history_def Let_def last_n_length split: sum.splits json.splits if_splits)

lemma append_all_bound:
  "ops \<noteq> [] \<Longrightarrow> append_all st ops = Inr (h, f) \<Longrightarrow> length h \<le> MAX_HISTORY"
proof (induction ops arbitrary: st)
  case Nil
  then show ?case by simp
next
  case (Cons op ops)
  obtain wr d where op: "op = (wr, d)" by (cases op)
  from Cons.prems(2) op obtain st' where
    st': "add_to_history wr d (snd st) = Inr st'" and rest: "append_all st' ops = Inr (h, f)"
    by (auto split: sum.splits)
  show ?case
  proof (cases ops)
    case Nil
    with rest have "st' = (h, f)" by simp
    with st' show ?thesis by (auto dest: add_to_history_bound)
  next
    case (Cons a as)
    with Cons.IH[of st'] rest show ?thesis using Cons.IH local.Cons by blast
  qed
qed

lemma append_all_written:
  "load_history (snd st) = Inr (JArr h0) \<Longrightarrow> ops \<noteq> [] \<Longrightarrow> list_all (\<lambda>op. fst op = Written) ops \<Longrightarrow>
   append_all st ops =
     Inr (last_n MAX_HISTORY (h0 @ map (\<lambda>op. current_record (snd op)) ops),
          Decoded (JArr (last_n MAX_HISTORY (h0 @ map (\<lambda>op. current_record (snd op)) ops))))"
proof (induction ops arbitrary: st h0)
  case Nil
  then show ?case by simp
next
  case (Cons op ops)
  obtain wr d where op: "op = (wr, d)" by (cases op)
  with Cons.prems have wr: "wr = Written" by simp
  let ?h1 = "last_n MAX_HISTORY (h0 @ [current_record d])"
  have step: "add_to_history wr d (snd st) = Inr (?h1, Decoded (JArr ?h1))"
    using add_to_history_list[OF Cons.prems(1), of wr d] wr by simp
  show ?case
  proof (cases ops)
    case Nil
    with step op show ?thesis by simp
  next
    case (Cons a as)
    have "load_history (snd (?h1, Decoded (JArr ?h1))) = Inr (JArr ?h1)" by simp
    from Cons.IH[OF this] Cons Cons.prems(3)
    have "append_all (?h1, Decoded (JArr ?h1)) ops =
      Inr (last_n MAX_HISTORY (?h1 @ map (\<lambda>op. current_record (snd op)) ops),
           Decoded (JArr (last_n MAX_HISTORY (?h1 @ map (\<lambda>op. current_record (snd op)) ops))))"
      by simp
    with step op show ?thesis by (simp add: last_n_last_n_append)
  qed
qed

text \<open>
  Claim C4. After a sequence of at least one append, the history returned holds at most 20
  records, whatever the file held before and whatever the writes did. When the file loads
  as a list and every write succeeds, the records kept are a suffix of the loaded records
  followed by the appended ones, in their order, 20 of them or all when there are fewer;
  the records evicted are the oldest; and the file holds the records kept. One append
  keeps such a suffix of the loaded records and the new one whatever its write does.
\<close>

theorem history_bounded_fifo:
  assumes "ops \<noteq> []"
  shows "(\<forall>h f'. append_all (h0, f) ops = Inr (h, f') \<longrightarrow> length h \<le> 20)
       \<and> (\<forall>xs. load_history f = Inr (JArr xs) \<and> list_all (\<lambda>op. fst op = Written) ops \<longrightarrow>
             (\<exists>evicted kept.
                append_all (h0, f) ops = Inr (kept, Decoded (JArr kept))
                \<and> xs @ map (\<lambda>op. current_record (snd op)) ops = evicted @ kept
                \<and> length kept = min 20 (length xs + length ops)))
       \<and> (\<forall>xs. load_history f = Inr (JArr xs) \<longrightarrow>
             (\<exists>evicted kept f'.
                add_to_history wr d f = Inr (kept, f')
                \<and> xs @ [current_record d] = evicted @ kept
                \<and> length kept = min 20 (length xs + 1)))"
proof (intro conjI allI impI)
  fix h f'
  assume "append_all (h0, f) ops = Inr (h, f')"
  with assms have "length h \<le> MAX_HISTORY" by (rule append_all_bound)
  then show "length h \<le> 20" by (simp add: MAX_HISTORY_def)
next
  fix xs
  assume a: "load_history f = Inr (JArr xs) \<and> list_all (\<lambda>op. fst op = Written) ops"
  let ?all = "xs @ map (\<lambda>op. current_record (snd op)) ops"
  let ?kept = "last_n MAX_HISTORY ?all"
  from a have "load_history (snd (h0, f)) = Inr (JArr xs)" by simp
  from append_all_written[OF this assms] a
  have run: "append_all (h0, f) ops = Inr (?kept, Decoded (JArr ?kept))" by simp
  obtain evicted where ev: "?all = evicted @ ?kept"
    using last_n_append_split[of ?all MAX_HISTORY] by blast
  have len: "length ?kept = min 20 (length xs + length ops)"
    by (simp add: last_n_length MAX_HISTORY_def)
  from run ev len
  show "\<exists>evicted kept.
          append_all (h0, f) ops = Inr (kept, Decoded (JArr kept))
          \<and> xs @ map (\<lambda>op. current_record (snd op)) ops = evicted @ kept
          \<and> length kept = min 20 (length xs + length ops)"
    by blast
next
  fix xs
  assume a: "load_history f = Inr (JArr xs)"
  let ?all = "xs @ [current_record d]"
  let ?kept = "last_n MAX_HISTORY ?all"
  obtain f' where run: "add_to_history wr d f = Inr (?kept, f')"
    using add_to_history_list[OF a, of wr d] by simp
  obtain evicted where ev: "?all = evicted @ ?kept"
    using last_n_append_split[of ?all MAX_HISTORY] by blast
  have len: "length ?kept = min 20 (length xs + 1)"
    by (simp add: last_n_length MAX_HISTORY_def)
  from run ev len
  show "\<exists>evicted kept f'.
          add_to_history wr d f = Inr (kept, f')
          \<and> xs @ [current_record d] = evicted @ kept
          \<and> length kept = min 20 (length xs + 1)"
    by blast
qed

theorem history_bounded_fifo_witness:
  "\<exists>evicted kept.
     append_all ([], Decoded (JArr (replicate 25 JNull)))
                [(Written, \<lparr>timestamp = ''2024-01-01T00:00:00'', time = ''14:30'', rx_bytes = 1,
                             tx_bytes = 2, total_bytes = 3, avg_rate_bps = 4\<rparr>)]
       = Inr (kept, Decoded (JArr kept))
     \<and> replicate 25 JNull
         @ [current_record \<lparr>timestamp = ''2024-01-01T00:00:00'', time = ''14:30'', rx_bytes = 1,
                             tx_bytes = 2, total_bytes = 3, avg_rate_bps = 4\<rparr>] = evicted @ kept
     \<and> length kept = 20"
  using history_bounded_fifo
          [of "[(Written, \<lparr>timestamp = ''2024-01-01T00:00:00'', time = ''14:30'', rx_bytes = 1,
                             tx_bytes = 2, total_bytes = 3, avg_rate_bps = 4\<rparr>)]"
              "[]" "Decoded (JArr (replicate 25 JNull))"]
  by simp

section \<open>The spike decision\<close>

text \<open>
  Claim C1. Without a baseline, or with a standard deviation of 0, \<open>detect_spike\<close>
  returns no spike and the score 0. Otherwise the score is the distance of the
  measurement's total from the mean in standard deviations, and the measurement is a spike
  exactly when its total is above the mean plus 2.0 standard deviations. Against a
  baseline of mean 1000 and deviation 100, a total of 1250 scores 2.5 and is a spike, a
  total of 1150 is not.
\<close>

theorem detect_spike_rule:
  "detect_spike d None = (False, 0)
   \<and> (stdev st = 0 \<longrightarrow> detect_spike d (Some st) = (False, 0))
   \<and> (stdev st \<noteq> 0 \<longrightarrow>
        detect_spike d (Some st)
          = (total_bytes d > mean st + 2.0 * stdev st, (total_bytes d - mean st) / stdev st))"
  by (simp add: detect_spike_def SPIKE_THRESHOLD_def Let_def)

theorem detect_spike_rule_witness:
  "detect_spike \<lparr>timestamp = ''2024-01-01T00:00:00'', time = ''14:30'', rx_bytes = 0, tx_bytes = 0,
                  total_bytes = 1250, avg_rate_bps = 0\<rparr>
                (Some \<lparr>mean = 1000, stdev = 100, count = 20\<rparr>) = (True, 2.5)
   \<and> fst (detect_spike \<lparr>timestamp = ''2024-01-01T00:00:00'', time = ''14:30'', rx_bytes = 0, tx_bytes = 0,
                  total_bytes = 1150, avg_rate_bps = 0\<rparr>
                (Some \<lparr>mean = 1000, stdev = 100, count = 20\<rparr>)) = False"
  using detect_spike_rule [of "\<lparr>timestamp = ''2024-01-01T00:00:00'', time = ''14:30'', rx_bytes = 0,
                                 tx_bytes = 0, total_bytes = 1250, avg_rate_bps = 0\<rparr>"
                              "\<lparr>mean = 1000, stdev = 100, count = 20\<rparr>"]
        detect_spike_rule [of "\<lparr>timestamp = ''2024-01-01T00:00:00'', time = ''14:30'', rx_bytes = 0,
                                 tx_bytes = 0, total_bytes = 1150, avg_rate_bps = 0\<rparr>"
                              "\<lparr>mean = 1000, stdev = 100, count = 20\<rparr>"]
  by simp

section \<open>The spike alert payload\<close>

lemma round_half_even_close: "\<bar>of_int (round_half_even x) - x\<bar> \<le> 1 / 2"
proof -
  have "of_int \<lfloor>x\<rfloor> \<le> x" "x < of_int \<lfloor>x\<rfloor> + 1" by linarith+
  then show ?thesis
    by (auto simp: round_half_even_def Let_def)
qed

lemma py_round2_close: "\<bar>py_round2 z - z\<bar> \<le> 1 / 200"
proof -
  have "\<bar>of_int (round_half_even (z * 100)) - z * 100\<bar> \<le> 1 / 2"
    by (rule round_half_even_close)
  then show ?thesis by (simp add: py_round2_def field_simps)
qed

text \<open>
  Claim C10. The spike alert that \<open>send_spike_alert\<close> posts carries the constant
  \<open>SPIKE_THRESHOLD\<close>, 2.0, in its field \<open>threshold\<close>, and so not the cutoff
  \<open>mean + 2.0 * stdev\<close> in bytes unless that happens to be 2.0; its field
  \<open>z_score\<close> is the score rounded to two decimals: a whole number of hundredths, at most
  half a hundredth away from the score.
\<close>

theorem spike_alert_threshold_field:
  "\<exists>a. send_spike_alert m ev d z (Some st) w = Inr (w\<lparr>posted := posted w @ [SpikeAlert a]\<rparr>)
       \<and> threshold a = SPIKE_THRESHOLD \<and> threshold a = 2.0
       \<and> (mean st + SPIKE_THRESHOLD * stdev st \<noteq> 2.0
            \<longrightarrow> threshold a \<noteq> mean st + SPIKE_THRESHOLD * stdev st)
       \<and> z_score a = py_round2 z
       \<and> (\<exists>k::int. z_score a = of_int k / 100)
       \<and> \<bar>z_score a - z\<bar> \<le> 1 / 200"
  using py_round2_close[of z]
  by (simp add: send_spike_alert_def send_to_apps_script_def alert_data_def SPIKE_THRESHOLD_def)
     (auto simp: py_round2_def)

theorem spike_alert_threshold_field_witness:
  "\<exists>a. send_spike_alert \<lparr>server_name = ''web-1'', server_ip = ''10.0.0.5'', interface = ''eth0''\<rparr>
            \<lparr>vnstat = CommandFailed, now = ''2024-01-01T00:00:00'', delivered = (\<lambda>p. False),
             write_result = Written\<rparr>
            \<lparr>timestamp = ''2024-01-01T00:00:00'', time = ''14:30'', rx_bytes = 0, tx_bytes = 0,
             total_bytes = 1250, avg_rate_bps = 0\<rparr>
            3.14159 (Some \<lparr>mean = 1000, stdev = 100, count = 20\<rparr>)
            \<lparr>hfile = Missing, posted = []\<rparr>
          = Inr \<lparr>hfile = Missing, posted = [SpikeAlert a]\<rparr>
       \<and> threshold a = 2 \<and> threshold a \<noteq> 1200 \<and> z_score a = 3.14"
  using spike_alert_threshold_field
          [of "\<lparr>server_name = ''web-1'', server_ip = ''10.0.0.5'', interface = ''eth0''\<rparr>"
              "\<lparr>vnstat = CommandFailed, now = ''2024-01-01T00:00:00'', delivered = (\<lambda>p. False),
                write_result = Written\<rparr>"
              "\<lparr>timestamp = ''2024-01-01T00:00:00'', time = ''14:30'', rx_bytes = 0, tx_bytes = 0,
                total_bytes = 1250, avg_rate_bps = 0\<rparr>"
              "3.14159" "\<lparr>mean = 1000, stdev = 100, count = 20\<rparr>" "\<lparr>hfile = Missing, posted = []\<rparr>"]
  by (auto simp: SPIKE_THRESHOLD_def py_round2_def round_half_even_def Let_def)

section \<open>Baseline statistics\<close>

lemma sum_sq_dev:
  "sum_list (map (\<lambda>x. (x - c)\<^sup>2) xs)
     = sum_list (map (\<lambda>x. x * x) xs) - 2 * c * sum_list xs + real (length xs) * c\<^sup>2"
  by (induction xs) (simp_all add: power2_eq_square algebra_simps)

lemma ssd_eq:
  assumes "xs \<noteq> []"
  shows "(real (length xs) * sum_list (map (\<lambda>x. x * x) xs) - sum_list xs * sum_list xs) / real (length xs)
           = sum_list (map (\<lambda>x. (x - sum_list xs / real (length xs))\<^sup>2) xs)"
proof -
  have n: "real (length xs) \<noteq> 0" using assms by simp
  show ?thesis
    unfolding sum_sq_dev using n by (simp add: power2_eq_square field_simps)
qed

lemma map_exn_total_bytes:
  "list_all2 (\<lambda>r x. getitem r ''total_bytes'' = Inr (JNum x)) recs xs \<Longrightarrow>
   map_exn (\<lambda>r. getitem r ''total_bytes'') recs = Inr (map JNum xs)"
  by (induction recs xs rule: list_all2_induct) simp_all

lemma map_exn_number: "map_exn number (map JNum xs) = Inr xs"
  by (induction xs) simp_all

text \<open>
  Claim C5. On a history whose records carry the numbers \<open>xs\<close> as \<open>total_bytes\<close>,
  \<open>calculate_historical_stats\<close> returns nothing when the history is empty; otherwise the
  arithmetic mean of \<open>xs\<close>, their count, and as standard deviation 0 for one record and
  the root of the sum of squared deviations from the mean divided by \<open>n - 1\<close> for more.
\<close>

theorem calculate_historical_stats_spec:
  assumes "list_all2 (\<lambda>r x. getitem r ''total_bytes'' = Inr (JNum x)) recs xs"
  shows "calculate_historical_stats (JArr recs) =
           (if recs = [] then Inr None
            else Inr (Some \<lparr>mean = sum_list xs / real (length xs),
                            stdev = (if length recs = 1 then 0
                                     else sqrt (sum_list (map (\<lambda>x. (x - sum_list xs / real (length xs))\<^sup>2) xs)
                                                / real (length xs - 1))),
                            count = length recs\<rparr>))"
proof (cases "recs = []")
  case True
  then show ?thesis by (simp add: calculate_historical_stats_def)
next
  case False
  from assms have len: "length recs = length xs" by (rule list_all2_lengthD)
  with False have ne: "xs \<noteq> []" by auto
  then have pos: "0 < length xs" by simp
  show ?thesis
    using False len ne pos ssd_eq[OF ne]
    by (simp add: calculate_historical_stats_def map_exn_total_bytes[OF assms] map_exn_number
        statistics_mean_def statistics_stdev_def Let_def)
qed

theorem calculate_historical_stats_spec_witness:
  "calculate_historical_stats
     (JArr [JObj [(''time'', JStr ''14:20''), (''total_bytes'', JNum 0)],
            JObj [(''time'', JStr ''14:25''), (''total_bytes'', JNum 1)],
            JObj [(''time'', JStr ''14:30''), (''total_bytes'', JNum 2)]])
     = Inr (Some \<lparr>mean = 1, stdev = 1, count = 3\<rparr>)"
  using calculate_historical_stats_spec
          [of "[JObj [(''time'', JStr ''14:20''), (''total_bytes'', JNum 0)],
                JObj [(''time'', JStr ''14:25''), (''total_bytes'', JNum 1)],
                JObj [(''time'', JStr ''14:30''), (''total_bytes'', JNum 2)]]" "[0, 1, 2]"]
  by simp

section \<open>A run without a measurement\<close>

lemma scan_lines_all_skipped:
  "\<forall>l\<in>set ls. parse_line ts l = Inr None \<Longrightarrow> scan_lines ts latest ls = Inr latest"
  by (induction ls) simp_all

text \<open>
  Claim C7. When the counter command fails or is not installed, or no line of its output
  gives a measurement, \<open>run_check\<close> reports failure and leaves the world as it was:
  nothing is posted and the history file is not touched.
\<close>

theorem run_check_without_measurement:
  assumes "vnstat ev = CommandFailed \<or> vnstat ev = CommandNotFound
           \<or> (\<exists>out. vnstat ev = Stdout out
                 \<and> (\<forall>l\<in>set (split_on (CHR 0x0A) (strip out)). parse_line (now ev) l = Inr None))"
  shows "run_check m ev w = (False, w)"
proof -
  have "get_current_traffic_data ev = None"
    using assms
    by (auto simp: get_current_traffic_data_def run_vnstat_def parse_output_def
                   scan_lines_all_skipped)
  then show ?thesis by (simp add: run_check_def)
qed

theorem run_check_without_measurement_witness:
  "run_check \<lparr>server_name = ''web-1'', server_ip = ''10.0.0.5'', interface = ''eth0''\<rparr>
             \<lparr>vnstat = CommandFailed, now = ''2024-01-01T00:00:00'', delivered = (\<lambda>p. True),
              write_result = Written\<rparr>
             \<lparr>hfile = Missing, posted = []\<rparr>
     = (False, \<lparr>hfile = Missing, posted = []\<rparr>)
   \<and> run_check \<lparr>server_name = ''web-1'', server_ip = ''10.0.0.5'', interface = ''eth0''\<rparr>
             \<lparr>vnstat = Stdout '' eth0: Not enough data available yet.'',
              now = ''2024-01-01T00:00:00'', delivered = (\<lambda>p. True), write_result = Written\<rparr>
             \<lparr>hfile = Missing, posted = []\<rparr>
     = (False, \<lparr>hfile = Missing, posted = []\<rparr>)"
proof -
  have "\<forall>l\<in>set (split_on (CHR 0x0A) (strip '' eth0: Not enough data available yet.'')).
          parse_line ''2024-01-01T00:00:00'' l = Inr None"
    by (simp add: parse_line_def strip_def is_space_def is_digit_def)
  with run_check_without_measurement
          [of "\<lparr>vnstat = CommandFailed, now = ''2024-01-01T00:00:00'', delivered = (\<lambda>p. True),
                write_result = Written\<rparr>"
              "\<lparr>server_name = ''web-1'', server_ip = ''10.0.0.5'', interface = ''eth0''\<rparr>"
              "\<lparr>hfile = Missing, posted = []\<rparr>"]
       run_check_without_measurement
          [of "\<lparr>vnstat = Stdout '' eth0: Not enough data available yet.'',
                now = ''2024-01-01T00:00:00'', delivered = (\<lambda>p. True), write_result = Written\<rparr>"
              "\<lparr>server_name = ''web-1'', server_ip = ''10.0.0.5'', interface = ''eth0''\<rparr>"
              "\<lparr>hfile = Missing, posted = []\<rparr>"]
  show ?thesis by simp
qed

section \<open>Facts about the converters\<close>

lemma py_float_nonneg: "py_float s = Inr v \<Longrightarrow> 0 \<le> v"
  by (auto simp: py_float_def Let_def split: list.splits if_splits)

lemma py_float_exn: "py_float s = Inl e \<Longrightarrow> e = ValueError"
  by (auto simp: py_float_def Let_def split: list.splits if_splits)

lemma bytes_multiplier_pos: "0 < get_or_1 bytes_multipliers u"
  by (simp add: get_or_1_def bytes_multipliers_def)

lemma rate_multiplier_pos: "0 < get_or_1 rate_multipliers u"
  by (simp add: get_or_1_def rate_multipliers_def)

lemma convert_to_bytes_nonneg: "convert_to_bytes s = Inr v \<Longrightarrow> 0 \<le> v"
  using bytes_multiplier_pos
  by (auto simp: convert_to_bytes_def Let_def less_imp_le split: option.splits sum.splits dest!: py_float_nonneg)

lemma convert_to_bytes_exn: "convert_to_bytes s = Inl e \<Longrightarrow> e = ValueError"
  by (auto simp: convert_to_bytes_def Let_def split: option.splits sum.splits dest: py_float_exn)

lemma convert_rate_to_bps_nonneg: "convert_rate_to_bps s = Inr v \<Longrightarrow> 0 \<le> v"
  using rate_multiplier_pos
  by (auto simp: convert_rate_to_bps_def Let_def less_imp_le split: option.splits sum.splits if_splits dest!: py_float_nonneg)

lemma convert_rate_to_bps_exn: "convert_rate_to_bps s = Inl e \<Longrightarrow> e = ValueError"
  by (auto simp: convert_rate_to_bps_def Let_def split: option.splits sum.splits if_splits dest: py_float_exn)

lemma match_unit_sound:
  "match_unit r = Some u \<Longrightarrow> u \<in> set unit_texts \<and> (\<exists>rest. r = u @ rest)"
  by (auto simp: match_unit_def unit_texts_def Let_def split: list.splits if_splits)

lemma match_unit_complete:
  "u \<in> set unit_texts \<Longrightarrow> match_unit (u @ rest) = Some u"
  by (auto simp: match_unit_def unit_texts_def)

lemma unit_head:
  assumes "u \<in> set unit_texts"
  shows "\<exists>c cs. u = c # cs \<and> \<not> is_space c \<and> \<not> is_num_char c"
proof -
  have "u \<noteq> []" and "hd u \<in> set ''kmgtib''"
    using assms by (auto simp: unit_texts_def)
  moreover have "\<forall>c\<in>set ''kmgtib''. \<not> is_space c \<and> \<not> is_num_char c"
    by (simp add: is_space_def is_num_char_def is_digit_def)
  ultimately show ?thesis by (cases u) auto
qed

lemma space_not_num: "is_space c \<Longrightarrow> \<not> is_num_char c"
  by (auto simp: is_space_def is_num_char_def is_digit_def Let_def)

lemma takeWhile_prefix_stop:
  assumes "\<forall>x\<in>set xs. P x" and "ys = [] \<or> \<not> P (hd ys)"
  shows "takeWhile P (xs @ ys) = xs" and "dropWhile P (xs @ ys) = ys"
  using assms by (induction xs) (auto simp: takeWhile_eq_Nil_iff dropWhile_eq_self_iff)

lemma match_bytes_complete:
  assumes s: "s = num @ ws @ u @ rest"
      and num: "num \<noteq> []" "list_all is_num_char num"
      and ws: "list_all is_space ws"
      and u: "u \<in> set unit_texts"
  shows "match_bytes s = Some (num, u)"
proof -
  from unit_head[OF u] obtain c cs where
    c: "u = c # cs" "\<not> is_space c" "\<not> is_num_char c" by blast
  have stop_num: "ws @ u @ rest = [] \<or> \<not> is_num_char (hd (ws @ u @ rest))"
    using ws c by (cases ws) (auto simp: space_not_num)
  have stop_ws: "u @ rest = [] \<or> \<not> is_space (hd (u @ rest))"
    using c by simp
  have all_num: "\<forall>x\<in>set num. is_num_char x" and all_ws: "\<forall>x\<in>set ws. is_space x"
    using num ws by (simp_all add: list_all_iff)
  have t: "takeWhile is_num_char s = num" and d: "dropWhile is_num_char s = ws @ u @ rest"
    unfolding s using takeWhile_prefix_stop[OF all_num stop_num] by simp_all
  have d2: "dropWhile is_space (ws @ u @ rest) = u @ rest"
    using takeWhile_prefix_stop(2)[OF all_ws stop_ws] by simp
  show ?thesis
    using num(1) by (simp add: match_bytes_def t d d2 match_unit_complete[OF u])
qed

lemma match_bytes_sound:
  assumes "match_bytes s = Some (num, u)"
  shows "\<exists>ws rest. s = num @ ws @ u @ rest \<and> num \<noteq> [] \<and> list_all is_num_char num
           \<and> list_all is_space ws \<and> u \<in> set unit_texts"
proof -
  let ?r = "dropWhile is_num_char s"
  let ?ws = "takeWhile is_space ?r"
  from assms have num: "num = takeWhile is_num_char s" "num \<noteq> []"
    and mu: "match_unit (dropWhile is_space ?r) = Some u"
    by (auto simp: match_bytes_def Let_def split: if_splits option.splits)
  from match_unit_sound[OF mu] obtain rest where
    u: "u \<in> set unit_texts" and rest: "dropWhile is_space ?r = u @ rest" by blast
  have "s = num @ ?r" by (simp add: num)
  also have "?r = ?ws @ dropWhile is_space ?r" by simp
  finally have "s = num @ ?ws @ u @ rest" by (simp add: rest)
  moreover have "list_all is_num_char num"
    by (auto simp: num list_all_iff dest: set_takeWhileD)
  moreover have "list_all is_space ?ws"
    by (auto simp: list_all_iff dest: set_takeWhileD)
  ultimately show ?thesis using num(2) u by blast
qed

lemma digits_no_dot: "list_all is_digit ds \<Longrightarrow> count_list ds (CHR ''.'') = 0"
  by (induction ds) (auto simp: is_digit_def)

lemma num_chars_all_digits:
  "list_all is_num_char fp \<Longrightarrow> list_all is_digit fp \<longleftrightarrow> count_list fp (CHR ''.'') = 0"
  by (induction fp) (auto simp: is_num_char_def is_digit_def)

lemma py_float_decimal_literal:
  assumes "list_all is_num_char num"
  shows "(\<exists>v. py_float num = Inr v) \<longleftrightarrow> decimal_literal num"
proof -
  let ?ip = "takeWhile is_digit num"
  let ?r = "dropWhile is_digit num"
  have split: "num = ?ip @ ?r" by simp
  have ip: "list_all is_digit ?ip" by (auto simp: list_all_iff dest: set_takeWhileD)
  have ip_ex: "list_ex is_digit ?ip \<longleftrightarrow> ?ip \<noteq> []"
    using ip by (cases ?ip) auto
  have cnt: "count_list num (CHR ''.'') = count_list ?r (CHR ''.'')"
    using digits_no_dot[OF ip] by (subst split) (simp del: takeWhile_dropWhile_id)
  have ex: "list_ex is_digit num \<longleftrightarrow> ?ip \<noteq> [] \<or> list_ex is_digit ?r"
    using ip_ex by (subst split) (simp del: takeWhile_dropWhile_id)
  show ?thesis
  proof (cases ?r)
    case Nil
    show ?thesis
      using cnt ex by (simp add: py_float_def decimal_literal_def Let_def Nil)
  next
    case (Cons c fp)
    then have "\<not> is_digit c" by (metis hd_dropWhile list.sel(1) list.distinct(1))
    moreover have "list_all is_num_char ?r"
      using assms by (auto simp: list_all_iff dest: set_dropWhileD)
    then have "is_num_char c" and fp: "list_all is_num_char fp"
      by (simp_all add: Cons)
    ultimately have c: "c = CHR ''.''" by (simp add: is_num_char_def)
    have fp_ex: "list_all is_digit fp \<Longrightarrow> list_ex is_digit fp \<longleftrightarrow> fp \<noteq> []"
      by (cases fp) auto
    show ?thesis
      using cnt ex c num_chars_all_digits[OF fp] fp_ex
      by (auto simp: py_float_def decimal_literal_def Let_def is_digit_def Cons)
  qed
qed

lemma match_bytes_pattern: "match_bytes t = Some (num, u) \<longleftrightarrow> bytes_pattern t num u"
  unfolding bytes_pattern_def
  using match_bytes_sound[of t num u] match_bytes_complete[of t num _ u] by blast

lemma match_bytes_None: "match_bytes t = None \<longleftrightarrow> (\<forall>num u. \<not> bytes_pattern t num u)"
proof -
  have "match_bytes t = None \<longleftrightarrow> (\<forall>num u. match_bytes t \<noteq> Some (num, u))"
    by (cases "match_bytes t") auto
  then show ?thesis by (simp add: match_bytes_pattern)
qed

lemma convert_to_bytes_matched:
  "bytes_pattern (lower (strip s)) num u \<Longrightarrow>
   convert_to_bytes s =
     (case py_float num of Inl e \<Rightarrow> Inl e | Inr v \<Rightarrow> Inr (v * get_or_1 bytes_multipliers u))"
  by (simp add: convert_to_bytes_def match_bytes_pattern[symmetric])

lemma convert_to_bytes_unmatched:
  "\<forall>num u. \<not> bytes_pattern (lower (strip s)) num u \<Longrightarrow> convert_to_bytes s = Inr 0"
  by (simp add: convert_to_bytes_def match_bytes_None[symmetric])

lemma bytes_pattern_run:
  "bytes_pattern t num u \<Longrightarrow> num = takeWhile is_num_char t \<and> list_all is_num_char num"
  using match_bytes_pattern[of t num u]
  by (auto simp: match_bytes_def Let_def bytes_pattern_def split: if_splits option.splits)

lemma bytes_pattern_head: "bytes_pattern t num u \<Longrightarrow> t \<noteq> [] \<and> is_num_char (hd t)"
  by (cases num) (auto simp: bytes_pattern_def)

section \<open>What the byte converter returns\<close>

text \<open>
  Claim C2, as amended. When the text, trimmed and in lower case, starts with a run of
  digits and dots that is a decimal literal of value \<open>v\<close>, then whitespace if any, then
  one of the unit texts \<open>b\<close>, \<open>kib\<close>, \<open>mib\<close>, \<open>gib\<close>, \<open>tib\<close>, the converter returns
  \<open>v\<close> times 1024 to the power 0, 1, 2, 3, 4, whatever follows the unit. When the text
  does not start with such a run, whitespace if any and a text of the form
  \<open>[kmgt]?i?b\<close>, it returns 0.0.
\<close>

theorem convert_to_bytes_binary_units:
  "(bytes_pattern (lower (strip s)) num u \<and> py_float num = Inr v
      \<and> (u, k) \<in> set [(''b'', 0), (''kib'', 1), (''mib'', 2), (''gib'', 3), (''tib'', 4)]
      \<longrightarrow> convert_to_bytes s = Inr (v * 1024 ^ k))
   \<and> ((\<forall>num u. \<not> bytes_pattern (lower (strip s)) num u) \<longrightarrow> convert_to_bytes s = Inr 0)"
proof (intro conjI impI)
  assume a: "bytes_pattern (lower (strip s)) num u \<and> py_float num = Inr v
      \<and> (u, k) \<in> set [(''b'', 0), (''kib'', 1), (''mib'', 2), (''gib'', 3), (''tib'', 4)]"
  then have "get_or_1 bytes_multipliers u = 1024 ^ k"
    by (auto simp: get_or_1_def bytes_multipliers_def)
  with a show "convert_to_bytes s = Inr (v * 1024 ^ k)"
    by (simp add: convert_to_bytes_matched[of s num u])
next
  assume "\<forall>num u. \<not> bytes_pattern (lower (strip s)) num u"
  then show "convert_to_bytes s = Inr 0" by (rule convert_to_bytes_unmatched)
qed

lemmas string_eval =
  lower_def strip_def lower_char_def is_space_def is_digit_def is_num_char_def

theorem convert_to_bytes_binary_units_witness:
  "convert_to_bytes '' 12.5 KiB '' = Inr 12800 \<and> convert_to_bytes ''n/a'' = Inr 0"
proof -
  have "''12.5 kib'' = ''12.5'' @ '' '' @ ''kib'' @ []" by simp
  then have p: "bytes_pattern (lower (strip '' 12.5 KiB '')) ''12.5'' ''kib''"
    unfolding bytes_pattern_def
    by (intro exI[of _ "'' ''"] exI[of _ "[]"]) (simp add: string_eval unit_texts_def)
  have f: "py_float ''12.5'' = Inr 12.5"
    by (simp add: py_float_def digits_val_def is_digit_def)
  have n: "\<forall>num u. \<not> bytes_pattern (lower (strip ''n/a'')) num u"
    by (auto simp: string_eval dest!: bytes_pattern_head)
  from convert_to_bytes_binary_units[of "'' 12.5 KiB ''" "''12.5''" "''kib''" "12.5" 1] p f
       convert_to_bytes_binary_units[of "''n/a''"] n
  show ?thesis by simp
qed

theorem convert_to_bytes_binary_units_counterexample:
  "convert_to_bytes ''12 KB'' = Inr 12 \<and> (12::real) \<noteq> 12 * 1024 ^ 1
   \<and> convert_to_bytes ''12 bananas'' = Inr 12 \<and> (12::real) \<noteq> 0"
  by (simp add: convert_to_bytes_def match_bytes_def match_unit_def py_float_def digits_val_def
                get_or_1_def bytes_multipliers_def string_eval)

text \<open>
  Claim C3, as amended. The converter raises nothing but \<open>ValueError\<close>, and raises
  exactly when the pattern matches and the run of digits and dots it matched is not a
  decimal literal (more than one dot, or no digit); for every other text it returns, and
  it returns 0.0 whenever the pattern does not match.
\<close>

theorem convert_to_bytes_raises:
  "(convert_to_bytes s = Inl e \<longrightarrow> e = ValueError)
   \<and> ((\<exists>e. convert_to_bytes s = Inl e)
        \<longleftrightarrow> (\<exists>num u. bytes_pattern (lower (strip s)) num u \<and> \<not> decimal_literal num))
   \<and> ((\<forall>num u. \<not> bytes_pattern (lower (strip s)) num u) \<longrightarrow> convert_to_bytes s = Inr 0)"
proof (intro conjI impI)
  assume "convert_to_bytes s = Inl e"
  then show "e = ValueError" by (rule convert_to_bytes_exn)
next
  show "(\<exists>e. convert_to_bytes s = Inl e)
        \<longleftrightarrow> (\<exists>num u. bytes_pattern (lower (strip s)) num u \<and> \<not> decimal_literal num)"
  proof (cases "match_bytes (lower (strip s))")
    case None
    then have "\<forall>num u. \<not> bytes_pattern (lower (strip s)) num u" by (simp add: match_bytes_None)
    then show ?thesis by (auto simp: convert_to_bytes_unmatched)
  next
    case (Some m)
    obtain num u where m: "m = (num, u)" by (cases m)
    with Some have p: "bytes_pattern (lower (strip s)) num u" by (simp add: match_bytes_pattern)
    then have run: "list_all is_num_char num" by (simp add: bytes_pattern_run)
    have uniq: "\<And>num' u'. bytes_pattern (lower (strip s)) num' u' \<Longrightarrow> num' = num"
      using bytes_pattern_run[OF p] by (auto dest!: bytes_pattern_run)
    have "(\<exists>e. convert_to_bytes s = Inl e) \<longleftrightarrow> \<not> (\<exists>v. py_float num = Inr v)"
      by (cases "py_float num") (simp_all add: convert_to_bytes_matched[OF p])
    also have "\<dots> \<longleftrightarrow> \<not> decimal_literal num"
      by (simp add: py_float_decimal_literal[OF run])
    finally show ?thesis using p uniq by blast
  qed
next
  assume "\<forall>num u. \<not> bytes_pattern (lower (strip s)) num u"
  then show "convert_to_bytes s = Inr 0" by (rule convert_to_bytes_unmatched)
qed

theorem convert_to_bytes_raises_witness:
  "convert_to_bytes ''1.2.3 MiB'' = Inl ValueError \<and> convert_to_bytes ''n/a'' = Inr 0"
proof -
  have "''1.2.3 mib'' = ''1.2.3'' @ '' '' @ ''mib'' @ []" by simp
  then have p: "bytes_pattern (lower (strip ''1.2.3 MiB'')) ''1.2.3'' ''mib''"
    unfolding bytes_pattern_def
    by (intro exI[of _ "'' ''"] exI[of _ "[]"]) (simp add: string_eval unit_texts_def)
  have d: "\<not> decimal_literal ''1.2.3''" by (simp add: decimal_literal_def)
  have n: "\<forall>num u. \<not> bytes_pattern (lower (strip ''n/a'')) num u"
    by (auto simp: string_eval dest!: bytes_pattern_head)
  from p d have "\<exists>num u. bytes_pattern (lower (strip ''1.2.3 MiB'')) num u \<and> \<not> decimal_literal num"
    by blast
  with convert_to_bytes_raises[of "''1.2.3 MiB''"] convert_to_bytes_raises[of "''n/a''"] n
  show ?thesis by blast
qed

theorem convert_to_bytes_raises_counterexample:
  "convert_to_bytes ''1.2.3 MiB'' = Inl ValueError"
  by (simp add: convert_to_bytes_def match_bytes_def match_unit_def py_float_def digits_val_def
                string_eval)

section \<open>What the parser returns\<close>

lemma conversions_exn: "conversions ts tm rx tx tot rate = Inl e \<Longrightarrow> e = ValueError"
  by (auto simp: conversions_def split: sum.splits
           dest: convert_to_bytes_exn convert_rate_to_bps_exn)

lemma conversions_fields:
  "conversions ts tm rx tx tot rate = Inr d \<longleftrightarrow>
     (\<exists>a b c r. convert_to_bytes rx = Inr a \<and> convert_to_bytes tx = Inr b
        \<and> convert_to_bytes tot = Inr c \<and> convert_rate_to_bps rate = Inr r
        \<and> d = \<lparr>timestamp = ts, time = tm, rx_bytes = a, tx_bytes = b, total_bytes = c,
                 avg_rate_bps = r\<rparr>)"
  by (auto simp: conversions_def split: sum.splits)

lemma conversions_nonneg:
  assumes "conversions ts tm rx tx tot rate = Inr d"
  shows "0 \<le> rx_bytes d \<and> 0 \<le> tx_bytes d \<and> 0 \<le> total_bytes d \<and> 0 \<le> avg_rate_bps d"
  using assms unfolding conversions_fields
  by (auto dest: convert_to_bytes_nonneg convert_rate_to_bps_nonneg)

lemma parse_line_returns: "parse_line ts l = Inr (measurement_of ts l)"
proof (cases "parse_line ts l")
  case (Inl e)
  then have False
    by (auto simp: parse_line_def Let_def split: if_splits option.splits sum.splits
             dest: conversions_exn)
  then show ?thesis ..
next
  case (Inr r)
  then show ?thesis by (simp add: measurement_of_def)
qed

lemma measurement_of_nonneg:
  assumes "measurement_of ts l = Some d"
  shows "0 \<le> rx_bytes d \<and> 0 \<le> tx_bytes d \<and> 0 \<le> total_bytes d \<and> 0 \<le> avg_rate_bps d"
proof -
  from assms have "parse_line ts l = Inr (Some d)" by (simp add: parse_line_returns)
  then obtain tm rx tx tot rate where "conversions ts tm rx tx tot rate = Inr d"
    by (auto simp: parse_line_def Let_def split: if_splits option.splits sum.splits)
  then show ?thesis by (rule conversions_nonneg)
qed

lemma scan_lines_last:
  "scan_lines ts latest ls =
     Inr (case List.map_filter (measurement_of ts) ls of
            [] \<Rightarrow> latest
          | d # ds \<Rightarrow> Some (last (d # ds)))"
proof (induction ls arbitrary: latest)
  case Nil
  then show ?case by (simp add: List.map_filter_simps)
next
  case (Cons l ls)
  show ?case
  proof (cases "measurement_of ts l")
    case None
    then show ?thesis
      by (simp add: parse_line_returns Cons.IH List.map_filter_simps)
  next
    case (Some d)
    then show ?thesis
      by (simp add: parse_line_returns Cons.IH List.map_filter_simps split: list.splits)
  qed
qed

lemma parse_output_nonneg:
  assumes "parse_output ts out = Inr (Some d)"
  shows "0 \<le> rx_bytes d \<and> 0 \<le> tx_bytes d \<and> 0 \<le> total_bytes d \<and> 0 \<le> avg_rate_bps d"
proof -
  let ?ds = "List.map_filter (measurement_of ts) (split_on (CHR 0x0A) (strip out))"
  from assms have "?ds \<noteq> []" and "d = last ?ds"
    by (auto simp: parse_output_def scan_lines_last split: list.splits)
  then have "d \<in> set ?ds" by simp
  then obtain l where "measurement_of ts l = Some d"
    by (auto simp: List.map_filter_def)
  then show ?thesis by (rule measurement_of_nonneg)
qed

lemmas parser_eval =
  parse_output_def parse_line_def conversions_def rx_text_def
  convert_to_bytes_def convert_rate_to_bps_def match_bytes_def match_unit_def match_rate_def
  py_float_def digits_val_def get_or_1_def bytes_multipliers_def rate_multipliers_def
  string_eval

text \<open>
  Claim C9. Every measurement the parser produces has non-negative received, transmitted
  and total byte counts and a non-negative rate, and the record written to the history
  carries the same numbers. The parser has no other way to fail than to return no
  measurement.
\<close>

theorem measurement_fields_nonnegative:
  "get_current_traffic_data ev = Some d \<longrightarrow>
     0 \<le> rx_bytes d \<and> 0 \<le> tx_bytes d \<and> 0 \<le> total_bytes d \<and> 0 \<le> avg_rate_bps d
     \<and> getitem (current_record d) ''rx_bytes'' = Inr (JNum (rx_bytes d))
     \<and> getitem (current_record d) ''tx_bytes'' = Inr (JNum (tx_bytes d))
     \<and> getitem (current_record d) ''total_bytes'' = Inr (JNum (total_bytes d))
     \<and> getitem (current_record d) ''avg_rate_bps'' = Inr (JNum (avg_rate_bps d))"
proof
  assume "get_current_traffic_data ev = Some d"
  then obtain out where "parse_output (now ev) out = Inr (Some d)"
    by (auto simp: get_current_traffic_data_def split: sum.splits)
  then have "0 \<le> rx_bytes d \<and> 0 \<le> tx_bytes d \<and> 0 \<le> total_bytes d \<and> 0 \<le> avg_rate_bps d"
    by (rule parse_output_nonneg)
  then show "0 \<le> rx_bytes d \<and> 0 \<le> tx_bytes d \<and> 0 \<le> total_bytes d \<and> 0 \<le> avg_rate_bps d
     \<and> getitem (current_record d) ''rx_bytes'' = Inr (JNum (rx_bytes d))
     \<and> getitem (current_record d) ''tx_bytes'' = Inr (JNum (tx_bytes d))
     \<and> getitem (current_record d) ''total_bytes'' = Inr (JNum (total_bytes d))
     \<and> getitem (current_record d) ''avg_rate_bps'' = Inr (JNum (avg_rate_bps d))"
    by (simp add: current_record_def)
qed

theorem measurement_fields_nonnegative_witness:
  "\<exists>d. get_current_traffic_data
          \<lparr>vnstat = Stdout ''14:30    1.20 MiB | 500.00 KiB | 1.70 MiB | 120 kbit/s'',
           now = ''2024-01-01T00:00:00'', delivered = (\<lambda>p. True), write_result = Written\<rparr> = Some d
       \<and> rx_bytes d = 1258291.2 \<and> total_bytes d = 1782579.2 \<and> avg_rate_bps d = 120000
       \<and> 0 \<le> tx_bytes d
       \<and> getitem (current_record d) ''tx_bytes'' = Inr (JNum (tx_bytes d))"
proof -
  let ?ev = "\<lparr>vnstat = Stdout ''14:30    1.20 MiB | 500.00 KiB | 1.70 MiB | 120 kbit/s'',
           now = ''2024-01-01T00:00:00'', delivered = (\<lambda>p. True), write_result = Written\<rparr>"
  let ?d = "\<lparr>timestamp = ''2024-01-01T00:00:00'', time = ''14:30'', rx_bytes = 1258291.2,
             tx_bytes = 512000, total_bytes = 1782579.2, avg_rate_bps = 120000\<rparr>"
  have e: "get_current_traffic_data ?ev = Some ?d"
    by (simp add: get_current_traffic_data_def run_vnstat_def parser_eval)
  from measurement_fields_nonnegative[of ?ev ?d] e
  have "0 \<le> tx_bytes ?d \<and> getitem (current_record ?d) ''tx_bytes'' = Inr (JNum (tx_bytes ?d))"
    by blast
  with e show ?thesis by (intro exI[of _ ?d]) simp
qed

lemma measurement_of_skipped:
  "search_time l = None \<or> length (map strip (split_on (CHR ''|'') l)) < 4
     \<or> search_time (strip (map strip (split_on (CHR ''|'') l) ! 0)) = None
   \<Longrightarrow> measurement_of ts l = None"
  by (auto simp: measurement_of_def parse_line_def Let_def)

lemma measurement_of_raised:
  assumes "conversions ts tm (rx_text (strip (map strip (split_on (CHR ''|'') l) ! 0)))
             (strip (map strip (split_on (CHR ''|'') l) ! 1))
             (strip (map strip (split_on (CHR ''|'') l) ! 2))
             (strip (map strip (split_on (CHR ''|'') l) ! 3)) = Inl e"
  shows "measurement_of ts l = None"
proof (cases "measurement_of ts l")
  case None
  then show ?thesis .
next
  case (Some d)
  then have "parse_line ts l = Inr (Some d)" by (simp add: parse_line_returns)
  then obtain tm' where
    "conversions ts tm' (rx_text (strip (map strip (split_on (CHR ''|'') l) ! 0)))
             (strip (map strip (split_on (CHR ''|'') l) ! 1))
             (strip (map strip (split_on (CHR ''|'') l) ! 2))
             (strip (map strip (split_on (CHR ''|'') l) ! 3)) = Inr d"
    by (auto simp: parse_line_def Let_def split: if_splits option.splits sum.splits)
  with assms have False
    by (auto simp: conversions_def split: sum.splits)
  then show ?thesis ..
qed

lemma measurement_of_used:
  assumes "search_time l \<noteq> None"
      and "4 \<le> length (map strip (split_on (CHR ''|'') l))"
      and "search_time (strip (map strip (split_on (CHR ''|'') l) ! 0)) = Some m"
      and "conversions ts (take 5 m) (rx_text (strip (map strip (split_on (CHR ''|'') l) ! 0)))
             (strip (map strip (split_on (CHR ''|'') l) ! 1))
             (strip (map strip (split_on (CHR ''|'') l) ! 2))
             (strip (map strip (split_on (CHR ''|'') l) ! 3)) = Inr d"
  shows "measurement_of ts l = Some d"
  using assms by (simp add: measurement_of_def parse_line_def Let_def)

text \<open>
  Claim C6, as amended. The parser returns the measurement of the last line that gives
  one, and nothing when no line does. A line gives a measurement when it holds a time
  label, has at least four fields between bars, has a time label in its first field, and
  its four quantity texts convert without an exception. A line without a time label, with
  fewer than four fields or without a time label in the first field is passed over, and
  so is a line one of whose quantities makes a converter raise, as a magnitude that is
  not a decimal literal does. No line makes the parser raise.
\<close>

theorem parse_output_last_usable_line:
  "parse_output ts out =
     Inr (case List.map_filter (measurement_of ts) (split_on (CHR 0x0A) (strip out)) of
            [] \<Rightarrow> None
          | d # ds \<Rightarrow> Some (last (d # ds)))
   \<and> parse_line ts l = Inr (measurement_of ts l)
   \<and> (let parts = map strip (split_on (CHR ''|'') l);
           time_rx_part = strip (parts ! 0);
           rx_str = rx_text time_rx_part;
           tx_str = strip (parts ! 1);
           total_str = strip (parts ! 2);
           rate_str = strip (parts ! 3)
       in (search_time l = None \<or> length parts < 4 \<or> search_time time_rx_part = None
             \<longrightarrow> measurement_of ts l = None)
        \<and> ((\<exists>e. convert_to_bytes rx_str = Inl e \<or> convert_to_bytes tx_str = Inl e
                 \<or> convert_to_bytes total_str = Inl e \<or> convert_rate_to_bps rate_str = Inl e)
             \<longrightarrow> measurement_of ts l = None)
        \<and> (search_time l \<noteq> None \<and> 4 \<le> length parts \<and> search_time time_rx_part = Some m
             \<and> convert_to_bytes rx_str = Inr rx \<and> convert_to_bytes tx_str = Inr tx
             \<and> convert_to_bytes total_str = Inr tot \<and> convert_rate_to_bps rate_str = Inr rate
             \<longrightarrow> measurement_of ts l =
                   Some \<lparr>timestamp = ts, time = take 5 m, rx_bytes = rx, tx_bytes = tx,
                         total_bytes = tot, avg_rate_bps = rate\<rparr>))"
proof -
  let ?parts = "map strip (split_on (CHR ''|'') l)"
  let ?rx = "rx_text (strip (?parts ! 0))"
  let ?tx = "strip (?parts ! 1)"
  let ?tot = "strip (?parts ! 2)"
  let ?rate = "strip (?parts ! 3)"
  have raised: "measurement_of ts l = None"
    if "convert_to_bytes ?rx = Inl e \<or> convert_to_bytes ?tx = Inl e
          \<or> convert_to_bytes ?tot = Inl e \<or> convert_rate_to_bps ?rate = Inl e" for e
  proof (cases "conversions ts [] ?rx ?tx ?tot ?rate")
    case (Inl e')
    then show ?thesis by (rule measurement_of_raised)
  next
    case (Inr d)
    with that have False by (auto simp: conversions_fields)
    then show ?thesis ..
  qed
  have used: "measurement_of ts l =
                Some \<lparr>timestamp = ts, time = take 5 m, rx_bytes = rx, tx_bytes = tx,
                      total_bytes = tot, avg_rate_bps = rate\<rparr>"
    if "search_time l \<noteq> None" "4 \<le> length ?parts" "search_time (strip (?parts ! 0)) = Some m"
       "convert_to_bytes ?rx = Inr rx" "convert_to_bytes ?tx = Inr tx"
       "convert_to_bytes ?tot = Inr tot" "convert_rate_to_bps ?rate = Inr rate"
  proof (rule measurement_of_used[OF that(1-3)])
    show "conversions ts (take 5 m) ?rx ?tx ?tot ?rate =
            Inr \<lparr>timestamp = ts, time = take 5 m, rx_bytes = rx, tx_bytes = tx,
                 total_bytes = tot, avg_rate_bps = rate\<rparr>"
      using that(4-7) by (simp add: conversions_def)
  qed
  have skipped: "measurement_of ts l = None"
    if "search_time l = None \<or> length ?parts < 4 \<or> search_time (strip (?parts ! 0)) = None"
    using that by (rule measurement_of_skipped)
  show ?thesis
    unfolding Let_def
  proof (intro conjI impI)
    show "parse_output ts out =
            Inr (case List.map_filter (measurement_of ts) (split_on (CHR 0x0A) (strip out)) of
                   [] \<Rightarrow> None
                 | d # ds \<Rightarrow> Some (last (d # ds)))"
      by (simp only: parse_output_def scan_lines_last)
    show "parse_line ts l = Inr (measurement_of ts l)"
      by (rule parse_line_returns)
  next
    assume "search_time l = None \<or> length ?parts < 4 \<or> search_time (strip (?parts ! 0)) = None"
    then show "measurement_of ts l = None" by (rule skipped)
  next
    assume "\<exists>e. convert_to_bytes ?rx = Inl e \<or> convert_to_bytes ?tx = Inl e
                \<or> convert_to_bytes ?tot = Inl e \<or> convert_rate_to_bps ?rate = Inl e"
    then obtain e where "convert_to_bytes ?rx = Inl e \<or> convert_to_bytes ?tx = Inl e
                \<or> convert_to_bytes ?tot = Inl e \<or> convert_rate_to_bps ?rate = Inl e" ..
    then show "measurement_of ts l = None" by (rule raised)
  next
    assume "search_time l \<noteq> None \<and> 4 \<le> length ?parts \<and> search_time (strip (?parts ! 0)) = Some m
             \<and> convert_to_bytes ?rx = Inr rx \<and> convert_to_bytes ?tx = Inr tx
             \<and> convert_to_bytes ?tot = Inr tot \<and> convert_rate_to_bps ?rate = Inr rate"
    then show "measurement_of ts l =
                 Some \<lparr>timestamp = ts, time = take 5 m, rx_bytes = rx, tx_bytes = tx,
                       total_bytes = tot, avg_rate_bps = rate\<rparr>"
      using used by blast
  qed
qed

theorem parse_output_last_usable_line_witness:
  "parse_output ''2024-01-01T00:00:00''
     (''     time        rx      |     tx      |    total    |   avg. rate'' @ [CHR 0x0A]
      @ ''    12:00     1.00 KiB |    2.00 KiB |    3.00 KiB |    1 kbit/s'' @ [CHR 0x0A]
      @ ''    12:05     4.00 KiB |    5.00 KiB |    9.00 KiB |    2 kbit/s'')
     = Inr (Some \<lparr>timestamp = ''2024-01-01T00:00:00'', time = ''12:05'', rx_bytes = 4096,
                    tx_bytes = 5120, total_bytes = 9216, avg_rate_bps = 2000\<rparr>)
   \<and> measurement_of ''2024-01-01T00:00:00'' ''12:10 5.00 KiB | 1.00 KiB'' = None
   \<and> measurement_of ''2024-01-01T00:00:00''
        ''12:15 1.00 KiB | 2.00 KiB | 3.0.0 KiB | 1 kbit/s'' = None
   \<and> measurement_of ''2024-01-01T00:00:00''
        ''12:20 1.00 KiB | 2.00 KiB | 3.00 KiB | 1 kbit/s''
       = Some \<lparr>timestamp = ''2024-01-01T00:00:00'', time = ''12:20'', rx_bytes = 1024,
               tx_bytes = 2048, total_bytes = 3072, avg_rate_bps = 1000\<rparr>"
proof -
  let ?ts = "''2024-01-01T00:00:00''"
  let ?out = "''     time        rx      |     tx      |    total    |   avg. rate'' @ [CHR 0x0A]
      @ ''    12:00     1.00 KiB |    2.00 KiB |    3.00 KiB |    1 kbit/s'' @ [CHR 0x0A]
      @ ''    12:05     4.00 KiB |    5.00 KiB |    9.00 KiB |    2 kbit/s''"
  let ?short = "''12:10 5.00 KiB | 1.00 KiB''"
  let ?bad = "''12:15 1.00 KiB | 2.00 KiB | 3.0.0 KiB | 1 kbit/s''"
  let ?good = "''12:20 1.00 KiB | 2.00 KiB | 3.00 KiB | 1 kbit/s''"
  have lines: "List.map_filter (measurement_of ?ts) (split_on (CHR 0x0A) (strip ?out))
          = [\<lparr>timestamp = ?ts, time = ''12:00'', rx_bytes = 1024, tx_bytes = 2048,
               total_bytes = 3072, avg_rate_bps = 1000\<rparr>,
             \<lparr>timestamp = ?ts, time = ''12:05'', rx_bytes = 4096, tx_bytes = 5120,
               total_bytes = 9216, avg_rate_bps = 2000\<rparr>]"
    by (simp add: List.map_filter_simps measurement_of_def parser_eval)
  have short: "length (map strip (split_on (CHR ''|'') ?short)) < 4"
    by simp
  have bad: "convert_to_bytes (strip (map strip (split_on (CHR ''|'') ?bad) ! 2)) = Inl ValueError"
    by (simp add: parser_eval)
  have good: "search_time ?good \<noteq> None \<and> 4 \<le> length (map strip (split_on (CHR ''|'') ?good))
      \<and> search_time (strip (map strip (split_on (CHR ''|'') ?good) ! 0)) = Some ''12:20 1.00 KiB''
      \<and> convert_to_bytes (rx_text (strip (map strip (split_on (CHR ''|'') ?good) ! 0))) = Inr 1024
      \<and> convert_to_bytes (strip (map strip (split_on (CHR ''|'') ?good) ! 1)) = Inr 2048
      \<and> convert_to_bytes (strip (map strip (split_on (CHR ''|'') ?good) ! 2)) = Inr 3072
      \<and> convert_rate_to_bps (strip (map strip (split_on (CHR ''|'') ?good) ! 3)) = Inr 1000"
    by (simp add: parser_eval)
  have 1: "parse_output ?ts ?out
     = Inr (Some \<lparr>timestamp = ?ts, time = ''12:05'', rx_bytes = 4096,
                    tx_bytes = 5120, total_bytes = 9216, avg_rate_bps = 2000\<rparr>)"
    using parse_output_last_usable_line[of ?ts ?out "[]"] by (simp only: lines) simp
  have 2: "measurement_of ?ts ?short = None"
    using parse_output_last_usable_line[of ?ts "[]" ?short] short
    unfolding Let_def by blast
  have 3: "measurement_of ?ts ?bad = None"
    using parse_output_last_usable_line[of ?ts "[]" ?bad] bad
    unfolding Let_def by blast
  have 4: "measurement_of ?ts ?good
       = Some \<lparr>timestamp = ?ts, time = take 5 ''12:20 1.00 KiB'', rx_bytes = 1024,
               tx_bytes = 2048, total_bytes = 3072, avg_rate_bps = 1000\<rparr>"
    using parse_output_last_usable_line
            [of ?ts "[]" ?good "''12:20 1.00 KiB''" 1024 2048 3072 1000] good
    unfolding Let_def by blast
  from 1 2 3 4 show ?thesis by simp
qed

theorem parse_output_last_usable_line_counterexample:
  "search_time ''12:05 1.2.3 MiB | 1.00 KiB | 2.00 MiB | 3 kbit/s'' \<noteq> None
   \<and> length (split_on (CHR ''|'') ''12:05 1.2.3 MiB | 1.00 KiB | 2.00 MiB | 3 kbit/s'') = 4
   \<and> search_time (hd (split_on (CHR ''|'') ''12:05 1.2.3 MiB | 1.00 KiB | 2.00 MiB | 3 kbit/s''))
       \<noteq> None
   \<and> parse_output ''2024-01-01T00:00:00''
        (''12:00 1.00 KiB | 2.00 KiB | 3.00 KiB | 1 kbit/s'' @ [CHR 0x0A]
         @ ''12:05 1.2.3 MiB | 1.00 KiB | 2.00 MiB | 3 kbit/s'')
       = Inr (Some \<lparr>timestamp = ''2024-01-01T00:00:00'', time = ''12:00'', rx_bytes = 1024,
                      tx_bytes = 2048, total_bytes = 3072, avg_rate_bps = 1000\<rparr>)"
  by (simp add: parser_eval)

section \<open>A history file that is not a list of records\<close>

text \<open>
  Claim C8 does not hold of the code. The handler of \<open>load_history\<close> recovers from a
  file that cannot be read and from text that is not JSON. A file that holds the JSON
  text \<open>null\<close> passes both: \<open>load_history\<close> raises \<open>TypeError\<close> when it takes the length
  of what it loaded, and the run fails, posting the health check with status
  \<open>error\<close> and leaving the file as it is, so that the next run fails too.
\<close>

theorem load_history_null_fails_run:
  "load_history (Decoded JNull) = Inl TypeError
   \<and> run_check \<lparr>server_name = ''web-1'', server_ip = ''10.0.0.5'', interface = ''eth0''\<rparr>
        \<lparr>vnstat = Stdout ''14:30    1.20 MiB | 500.00 KiB | 1.70 MiB | 120 kbit/s'',
         now = ''2024-01-01T00:00:00'', delivered = (\<lambda>p. True), write_result = Written\<rparr>
        \<lparr>hfile = Decoded JNull, posted = []\<rparr>
     = (False,
        \<lparr>hfile = Decoded JNull,
         posted = [HealthCheck \<lparr>hc_timestamp = ''2024-01-01T00:00:00'',
                                hc_server_name = ''web-1'', hc_server_ip = ''10.0.0.5'',
                                hc_interface = ''eth0'', status = ''error'',
                                service = ''traffic_monitor'',
                                error_message = Some TypeError\<rparr>]\<rparr>)"
  by (simp add: run_check_def check_steps_def get_current_traffic_data_def run_vnstat_def
                send_to_apps_script_def error_data_def parser_eval)

end
